theory Spec2Isabelle
  imports Main "HOL-Library.Sublist"
begin

section \<open>Strings\<close>

text \<open>
  A JavaScript string is modelled as a \<^typ>\<open>string\<close>, one \<^typ>\<open>char\<close> per code unit; the
  model covers the code units below 256 (ASCII and Latin-1). A string is truthy when it
  is not empty.
\<close>

definition toLowerChar :: "char \<Rightarrow> char" where
  "toLowerChar c =
     (let n = (of_char c :: nat)
      in if (65 \<le> n \<and> n \<le> 90) \<or> (192 \<le> n \<and> n \<le> 222 \<and> n \<noteq> 215)
         then char_of (n + 32) else c)"

definition toLowerCase :: "string \<Rightarrow> string" where
  "toLowerCase s = map toLowerChar s"

text \<open>\<open>s.includes(t)\<close>: \<open>t\<close> occurs in \<open>s\<close> as a contiguous run.\<close>

fun str_includes :: "string \<Rightarrow> string \<Rightarrow> bool" where
  "str_includes [] t = (t = [])"
| "str_includes (c # cs) t = (prefix t (c # cs) \<or> str_includes cs t)"

section \<open>Data model\<close>

text \<open>
  \<open>DemoItem\<close>, \<open>TagItem\<close> and \<open>DemoTagItem\<close> of both components. A field typed
  \<open>GraphQLNullable\<close> or optional in the source is an option here.
\<close>

record DemoItem =
  d_id :: string
  projectName :: "string option"
  githubLink :: "string option"
  projectLink :: "string option"
  imageUrl :: "string option"
  createdAt :: string
  updatedAt :: string

record TagItem =
  t_id :: string
  t_name :: string
  t_color :: string

record DemoTagItem =
  dt_id :: string
  demoId :: string
  tagId :: string
  tag :: "TagItem option"

text \<open>The React state both components share; the admin component extends it below.\<close>

record UIState =
  demos :: "DemoItem list"
  demoTags :: "DemoTagItem list"
  availableTags :: "TagItem list"
  searchTerm :: string
  selectedFilterTags :: "string list"

section \<open>View projection\<close>

definition matchesSearch :: "string \<Rightarrow> DemoItem \<Rightarrow> bool" where
  "matchesSearch q demo =
     (q = [] \<or>
      (case projectName demo of
         None \<Rightarrow> False
       | Some n \<Rightarrow> n \<noteq> [] \<and> str_includes (toLowerCase n) (toLowerCase q)))"

definition matchesTags :: "string list \<Rightarrow> DemoTagItem list \<Rightarrow> DemoItem \<Rightarrow> bool" where
  "matchesTags sel dts demo =
     (length sel = 0 \<or>
      list_all (\<lambda>filterTagId.
        list_ex (\<lambda>dt. demoId dt = d_id demo \<and> tagId dt = filterTagId) dts) sel)"

definition getFilteredDemos :: "'a UIState_scheme \<Rightarrow> DemoItem list" where
  "getFilteredDemos s =
     filter (\<lambda>demo. matchesSearch (searchTerm s) demo \<and>
                    matchesTags (selectedFilterTags s) (demoTags s) demo) (demos s)"

definition handleFilterTagToggle :: "string \<Rightarrow> 'a UIState_scheme \<Rightarrow> 'a UIState_scheme" where
  "handleFilterTagToggle tid s =
     s\<lparr>selectedFilterTags :=
         (let prev = selectedFilterTags s
          in if tid \<in> set prev then filter (\<lambda>i. i \<noteq> tid) prev else prev @ [tid])\<rparr>"

definition clearAllFilters :: "'a UIState_scheme \<Rightarrow> 'a UIState_scheme" where
  "clearAllFilters s = s\<lparr>searchTerm := [], selectedFilterTags := []\<rparr>"

text \<open>
  The property of the specification, in its own words: the name contains the search term
  as a case-insensitive substring when some contiguous run of the name equals the term
  letter by letter up to case.
\<close>

definition ci_substring :: "string \<Rightarrow> string \<Rightarrow> bool" where
  "ci_substring q n =
     (\<exists>ys. sublist ys n \<and> list_all2 (\<lambda>a b. toLowerChar a = toLowerChar b) ys q)"

text \<open>The literal inputs of the specification's filter-conjunction example.\<close>

definition demo_d1 :: DemoItem where
  "demo_d1 = \<lparr>d_id = ''d1'', projectName = Some ''Alpha'', githubLink = None,
     projectLink = None, imageUrl = None, createdAt = ''t0'', updatedAt = ''t0''\<rparr>"

definition demo_d2 :: DemoItem where
  "demo_d2 = \<lparr>d_id = ''d2'', projectName = Some ''Beta'', githubLink = None,
     projectLink = None, imageUrl = None, createdAt = ''t0'', updatedAt = ''t0''\<rparr>"

definition rel :: "string \<Rightarrow> string \<Rightarrow> string \<Rightarrow> DemoTagItem" where
  "rel r d t = \<lparr>dt_id = r, demoId = d, tagId = t,
     tag = Some \<lparr>t_id = t, t_name = t, t_color = ''#e74c3c''\<rparr>\<rparr>"

definition example_state :: UIState where
  "example_state = \<lparr>demos = [demo_d1, demo_d2],
     demoTags = [rel ''r1'' ''d1'' ''tagA'', rel ''r2'' ''d1'' ''tagB'', rel ''r3'' ''d2'' ''tagA''],
     availableTags = [], searchTerm = [], selectedFilterTags = [''tagA'', ''tagB'']\<rparr>"

section \<open>Collection synchronizer: tag validation\<close>

text \<open>
  What a snapshot or a point lookup delivers for a tag: any field may be null, and an
  element of a snapshot may itself be null.
\<close>

record RawTag =
  raw_id :: "string option"
  raw_name :: "string option"
  raw_color :: "string option"

text \<open>JavaScript truthiness of a nullable string: neither null nor empty.\<close>

definition truthy :: "string option \<Rightarrow> bool" where
  "truthy v = (case v of None \<Rightarrow> False | Some x \<Rightarrow> x \<noteq> [])"

text \<open>\<open>v || d\<close> on a nullable string.\<close>

definition or_else :: "string option \<Rightarrow> string \<Rightarrow> string" where
  "or_else v d = (case v of None \<Rightarrow> d | Some x \<Rightarrow> if x = [] then d else x)"

definition isValidTag :: "RawTag option \<Rightarrow> bool" where
  "isValidTag t = (case t of None \<Rightarrow> False | Some tg \<Rightarrow> truthy (raw_id tg) \<and> truthy (raw_name tg))"

text \<open>
  The object built from a tag record that passed the guard; \<open>dflt\<close> is the fallback colour
  (\<open>"#f89520"\<close> in the user component, \<open>TAG_COLORS[0]\<close> in the admin component).
\<close>

definition toTagItem :: "string \<Rightarrow> RawTag \<Rightarrow> TagItem" where
  "toTagItem dflt tg =
     \<lparr>t_id = the (raw_id tg), t_name = or_else (raw_name tg) [], t_color = or_else (raw_color tg) dflt\<rparr>"

definition validTags :: "string \<Rightarrow> RawTag option list \<Rightarrow> TagItem list" where
  "validTags dflt items = map (\<lambda>t. toTagItem dflt (the t)) (filter isValidTag items)"

text \<open>A validated tag read again as a snapshot element, to run the validation a second time.\<close>

definition asRaw :: "TagItem \<Rightarrow> RawTag option" where
  "asRaw t = Some \<lparr>raw_id = Some (t_id t), raw_name = Some (t_name t), raw_color = Some (t_color t)\<rparr>"

section \<open>Relationship enricher\<close>

record RawDemoTag =
  r_id :: string
  r_demoId :: "string option"
  r_tagId :: "string option"

datatype AppError = AppError (message: string)

text \<open>
  \<open>client.models.Tag.get({ id })\<close>: the lookup throws, or answers with \<open>data\<close> null or a
  record.
\<close>

type_synonym resolver = "string \<Rightarrow> AppError + RawTag option"

text \<open>
  The \<open>for\<close> loop of \<open>demoTagSubscription\<close>, with \<open>enrichedDemoTags\<close> as the accumulator;
  \<open>push\<close> appends. The log lines are left out.
\<close>

fun enrichLoop :: "string \<Rightarrow> resolver \<Rightarrow> RawDemoTag option list \<Rightarrow> DemoTagItem list \<Rightarrow> DemoTagItem list" where
  "enrichLoop dflt get [] enriched = enriched"
| "enrichLoop dflt get (item # items) enriched =
     (case item of
        None \<Rightarrow> enrichLoop dflt get items enriched
      | Some it \<Rightarrow>
          if \<not> truthy (r_tagId it) \<or> \<not> truthy (r_demoId it)
          then enrichLoop dflt get items enriched
          else (case get (the (r_tagId it)) of
                  Inl err \<Rightarrow> enrichLoop dflt get items enriched
                | Inr data \<Rightarrow>
                    (case data of
                       None \<Rightarrow> enrichLoop dflt get items enriched
                     | Some d \<Rightarrow>
                         if truthy (raw_id d) \<and> truthy (raw_name d)
                         then enrichLoop dflt get items
                                (enriched @
                                 [\<lparr>dt_id = r_id it, demoId = the (r_demoId it), tagId = the (r_tagId it),
                                   tag = Some \<lparr>t_id = the (raw_id d), t_name = or_else (raw_name d) [],
                                               t_color = or_else (raw_color d) dflt\<rparr>\<rparr>])
                         else enrichLoop dflt get items enriched)))"

definition enrichDemoTags :: "string \<Rightarrow> resolver \<Rightarrow> RawDemoTag option list \<Rightarrow> DemoTagItem list" where
  "enrichDemoTags dflt get items = enrichLoop dflt get items []"

text \<open>
  The exclusion rule in the specification's words. A reference or a field is absent
  (missing) when it is null, undefined or the empty string, which is what the guards of
  the source test; the lookup yields no record when it throws or answers with no data.
\<close>

definition absent :: "string option \<Rightarrow> bool" where
  "absent v = (v = None \<or> v = Some [])"

definition noRecord :: "AppError + RawTag option \<Rightarrow> bool" where
  "noRecord r = (case r of Inl e \<Rightarrow> True | Inr None \<Rightarrow> True | Inr (Some d) \<Rightarrow> False)"

definition recordOf :: "AppError + RawTag option \<Rightarrow> RawTag" where
  "recordOf r = (case r of Inr (Some d) \<Rightarrow> d | _ \<Rightarrow> \<lparr>raw_id = None, raw_name = None, raw_color = None\<rparr>)"

definition excluded :: "resolver \<Rightarrow> RawDemoTag option \<Rightarrow> bool" where
  "excluded get item =
     (case item of
        None \<Rightarrow> True
      | Some it \<Rightarrow>
          absent (r_demoId it) \<or> absent (r_tagId it) \<or>
          noRecord (get (the (r_tagId it))) \<or>
          absent (raw_id (recordOf (get (the (r_tagId it))))) \<or>
          absent (raw_name (recordOf (get (the (r_tagId it))))))"

text \<open>A kept relationship paired with the tag its reference resolves to.\<close>

definition paired :: "string \<Rightarrow> resolver \<Rightarrow> RawDemoTag option \<Rightarrow> DemoTagItem" where
  "paired dflt get item =
     (let it = the item
      in \<lparr>dt_id = r_id it, demoId = the (r_demoId it), tagId = the (r_tagId it),
          tag = Some (toTagItem dflt (recordOf (get (the (r_tagId it)))))\<rparr>)"

text \<open>A lookup over a list of tag records, and the literal inputs of the examples.\<close>

definition lookupIn :: "RawTag list \<Rightarrow> resolver" where
  "lookupIn tags tid = Inr (find (\<lambda>t. raw_id t = Some tid) tags)"

definition tag_games :: RawTag where
  "tag_games = \<lparr>raw_id = Some ''t1'', raw_name = Some ''Games'', raw_color = Some ''#e74c3c''\<rparr>"

definition rel_missing :: RawDemoTag where
  "rel_missing = \<lparr>r_id = ''r1'', r_demoId = Some ''d1'', r_tagId = Some ''missing''\<rparr>"

definition rel_empty_demo :: RawDemoTag where
  "rel_empty_demo = \<lparr>r_id = ''r2'', r_demoId = Some [], r_tagId = Some ''t1''\<rparr>"

definition rel_games :: RawDemoTag where
  "rel_games = \<lparr>r_id = ''r3'', r_demoId = Some ''d1'', r_tagId = Some ''t1''\<rparr>"

section \<open>Tag allocator\<close>

definition TAG_COLORS :: "string list" where
  "TAG_COLORS =
     [''#e74c3c'', ''#3498db'', ''#2ecc71'', ''#9b59b6'', ''#f39c12'',
      ''#1abc9c'', ''#e67e22'', ''#34495e'', ''#27ae60'', ''#8e44ad'']"

definition getNextAvailableColor :: "'a UIState_scheme \<Rightarrow> string" where
  "getNextAvailableColor s =
     (let usedColors = map t_color (availableTags s);
          availableColors = filter (\<lambda>color. color \<notin> set usedColors) TAG_COLORS
      in if length availableColors > 0 then hd availableColors else TAG_COLORS ! 0)"

text \<open>Existing tags that use the given palette entries, for the examples.\<close>

definition tagsUsing :: "nat list \<Rightarrow> TagItem list" where
  "tagsUsing is = map (\<lambda>i. \<lparr>t_id = ''t'', t_name = ''n'', t_color = TAG_COLORS ! i\<rparr>) is"

definition stateWithTags :: "TagItem list \<Rightarrow> UIState" where
  "stateWithTags ts = \<lparr>demos = [], demoTags = [], availableTags = ts, searchTerm = [],
     selectedFilterTags = []\<rparr>"

section \<open>Backend data service\<close>

text \<open>
  \<open>s.trim()\<close>: the white space and line terminators below code unit 256 are removed from
  both ends.
\<close>

definition isWhiteSpace :: "char \<Rightarrow> bool" where
  "isWhiteSpace c = ((of_char c :: nat) \<in> {9, 10, 11, 12, 13, 32, 160})"

definition trim :: "string \<Rightarrow> string" where
  "trim x = rev (dropWhile isWhiteSpace (rev (dropWhile isWhiteSpace x)))"

record DemoTagRecord =
  rec_id :: string
  rec_demoId :: string
  rec_tagId :: string

record FormData =
  fd_projectName :: string
  fd_githubLink :: string
  fd_projectLink :: string
  fd_imageUrl :: string

text \<open>
  Modelled from the spec: the Backend Data Service behind \<open>client.models\<close>, an external
  collaborator whose code is not part of the repository. Section 6 of the specification
  gives its operations: \<open>list(filter?) -> {data: [...]}\<close> fetches the records that satisfy
  the equality filter, \<open>create\<close>, \<open>update\<close> and \<open>delete({id})\<close> are awaited mutations that
  return the record or nothing. The model keeps the three collections as lists, hands out
  identifiers from a counter, and lets any request fail: \<open>faults\<close> is the schedule of the
  coming requests, \<open>True\<close> for one that throws. A request that throws changes no
  collection.
\<close>

record Backend =
  demoTable :: "DemoItem list"
  tagTable :: "RawTag list"
  demoTagTable :: "DemoTagRecord list"
  nextId :: nat
  now :: string
  faults :: "bool list"

definition freshId :: "nat \<Rightarrow> string" where
  "freshId n = CHR ''#'' # replicate n (CHR ''i'')"

definition requestFailed :: AppError where
  "requestFailed = AppError ''request failed''"

definition request :: "Backend \<Rightarrow> bool \<times> Backend" where
  "request b = (case faults b of [] \<Rightarrow> (False, b) | f # fs \<Rightarrow> (f, b\<lparr>faults := fs\<rparr>))"

definition DemoTag_list :: "string \<Rightarrow> Backend \<Rightarrow> (AppError + DemoTagRecord list option) \<times> Backend" where
  "DemoTag_list did b =
     (case request b of
        (True, b') \<Rightarrow> (Inl requestFailed, b')
      | (False, b') \<Rightarrow> (Inr (Some (filter (\<lambda>r. rec_demoId r = did) (demoTagTable b'))), b'))"

definition DemoTag_delete :: "string \<Rightarrow> Backend \<Rightarrow> (AppError + unit) \<times> Backend" where
  "DemoTag_delete rid b =
     (case request b of
        (True, b') \<Rightarrow> (Inl requestFailed, b')
      | (False, b') \<Rightarrow>
          (Inr (), b'\<lparr>demoTagTable := filter (\<lambda>r. rec_id r \<noteq> rid) (demoTagTable b')\<rparr>))"

definition DemoTag_create :: "string \<Rightarrow> string \<Rightarrow> Backend \<Rightarrow> (AppError + unit) \<times> Backend" where
  "DemoTag_create did tid b =
     (case request b of
        (True, b') \<Rightarrow> (Inl requestFailed, b')
      | (False, b') \<Rightarrow>
          (Inr (), b'\<lparr>demoTagTable := demoTagTable b' @
                          [\<lparr>rec_id = freshId (nextId b'), rec_demoId = did, rec_tagId = tid\<rparr>],
                        nextId := Suc (nextId b')\<rparr>))"

definition Demo_delete :: "string \<Rightarrow> Backend \<Rightarrow> (AppError + unit) \<times> Backend" where
  "Demo_delete did b =
     (case request b of
        (True, b') \<Rightarrow> (Inl requestFailed, b')
      | (False, b') \<Rightarrow> (Inr (), b'\<lparr>demoTable := filter (\<lambda>d. d_id d \<noteq> did) (demoTable b')\<rparr>))"

definition Demo_create :: "FormData \<Rightarrow> Backend \<Rightarrow> (AppError + DemoItem option) \<times> Backend" where
  "Demo_create fd b =
     (case request b of
        (True, b') \<Rightarrow> (Inl requestFailed, b')
      | (False, b') \<Rightarrow>
          (let d = \<lparr>d_id = freshId (nextId b'), projectName = Some (fd_projectName fd),
                     githubLink = Some (fd_githubLink fd), projectLink = Some (fd_projectLink fd),
                     imageUrl = Some (fd_imageUrl fd), createdAt = now b', updatedAt = now b'\<rparr>
           in (Inr (Some d), b'\<lparr>demoTable := demoTable b' @ [d], nextId := Suc (nextId b')\<rparr>)))"

definition Demo_update :: "string \<Rightarrow> FormData \<Rightarrow> Backend \<Rightarrow> (AppError + unit) \<times> Backend" where
  "Demo_update did fd b =
     (case request b of
        (True, b') \<Rightarrow> (Inl requestFailed, b')
      | (False, b') \<Rightarrow>
          (Inr (), b'\<lparr>demoTable :=
             map (\<lambda>d. if d_id d = did
                       then d\<lparr>projectName := Some (fd_projectName fd),
                              githubLink := Some (fd_githubLink fd),
                              projectLink := Some (fd_projectLink fd),
                              imageUrl := Some (fd_imageUrl fd), updatedAt := now b'\<rparr>
                       else d) (demoTable b')\<rparr>))"

definition Tag_create :: "string \<Rightarrow> string \<Rightarrow> Backend \<Rightarrow> (AppError + RawTag option) \<times> Backend" where
  "Tag_create nm col b =
     (case request b of
        (True, b') \<Rightarrow> (Inl requestFailed, b')
      | (False, b') \<Rightarrow>
          (let t = \<lparr>raw_id = Some (freshId (nextId b')), raw_name = Some nm, raw_color = Some col\<rparr>
           in (Inr (Some t), b'\<lparr>tagTable := tagTable b' @ [t], nextId := Suc (nextId b')\<rparr>)))"

section \<open>Admin component\<close>

record FormErrors =
  fe_projectName :: bool
  fe_githubLink :: bool
  fe_projectLink :: bool
  fe_imageUrl :: bool
  fe_tags :: bool

record AdminState = UIState +
  debugInfo :: string
  isLoading :: bool
  modelExists :: bool
  isFormOpen :: bool
  editingId :: "string option"
  isAddTagOpen :: bool
  newTagName :: string
  addTagError :: bool
  formData :: FormData
  selectedTags :: "string list"
  formErrors :: FormErrors

text \<open>
  How a handler ended: it returned at a guard, it ran to the end of its \<open>try\<close> block, or
  its \<open>catch\<close> block took an error.
\<close>

datatype outcome = Skipped | Completed | Caught AppError

subsection \<open>handleAddTag\<close>

definition tagExists :: "AdminState \<Rightarrow> bool" where
  "tagExists s =
     list_ex (\<lambda>t. toLowerCase (t_name t) = toLowerCase (trim (newTagName s))) (availableTags s)"

definition handleAddTag :: "AdminState \<Rightarrow> Backend \<Rightarrow> AdminState \<times> Backend" where
  "handleAddTag s b =
     (if trim (newTagName s) = [] then (s\<lparr>addTagError := True\<rparr>, b)
      else if tagExists s then (s\<lparr>addTagError := True\<rparr>, b)
      else
        (let nextColor = getNextAvailableColor s
         in case Tag_create (trim (newTagName s)) nextColor b of
              (Inl err, b') \<Rightarrow>
                (s\<lparr>debugInfo := debugInfo s @ CHR 0x0A # ''Error creating tag: '' @ message err,
                   addTagError := True\<rparr>, b')
            | (Inr newTag, b') \<Rightarrow>
                (let s1 = (case newTag of
                             None \<Rightarrow> s
                           | Some d \<Rightarrow>
                               if truthy (raw_id d)
                               then s\<lparr>availableTags := availableTags s @
                                        [\<lparr>t_id = the (raw_id d), t_name = or_else (raw_name d) [],
                                          t_color = or_else (raw_color d) nextColor\<rparr>]\<rparr>
                               else s)
                 in (s1\<lparr>newTagName := [], isAddTagOpen := False, addTagError := False\<rparr>, b'))))"

text \<open>
  The specification's words for the uniqueness check: an existing name matches the
  proposed one case-insensitively, the proposed name taken after trimming, when the two
  are equal letter by letter up to case.
\<close>

definition ci_equal :: "string \<Rightarrow> string \<Rightarrow> bool" where
  "ci_equal a b = list_all2 (\<lambda>x y. toLowerChar x = toLowerChar y) a b"

subsection \<open>deleteDemo\<close>

fun deleteAll :: "DemoTagRecord list \<Rightarrow> Backend \<Rightarrow> (AppError + unit) \<times> Backend" where
  "deleteAll [] b = (Inr (), b)"
| "deleteAll (demoTag # rest) b =
     (case DemoTag_delete (rec_id demoTag) b of
        (Inl e, b') \<Rightarrow> (Inl e, b')
      | (Inr u, b') \<Rightarrow> deleteAll rest b')"

definition deleteFailed :: "AppError \<Rightarrow> AdminState \<Rightarrow> Backend \<Rightarrow> outcome \<times> AdminState \<times> Backend" where
  "deleteFailed e s b = (Caught e, s\<lparr>debugInfo := ''Error deleting demo: '' @ message e\<rparr>, b)"

text \<open>\<open>confirmed\<close> is the answer of \<open>window.confirm\<close>.\<close>

definition deleteDemo :: "bool \<Rightarrow> string \<Rightarrow> AdminState \<Rightarrow> Backend \<Rightarrow> outcome \<times> AdminState \<times> Backend" where
  "deleteDemo confirmed did s b =
     (if \<not> modelExists s
      then (Skipped,
            s\<lparr>debugInfo := ''Cannot delete: Demo model is not available in the backend yet.''\<rparr>, b)
      else if \<not> confirmed then (Skipped, s, b)
      else
        (case DemoTag_list did b of
           (Inl e, b1) \<Rightarrow> deleteFailed e s b1
         | (Inr demoTagsResponse, b1) \<Rightarrow>
             (case (case demoTagsResponse of
                      None \<Rightarrow> (Inr (), b1)
                    | Some rs \<Rightarrow> deleteAll rs b1) of
                (Inl e, b2) \<Rightarrow> deleteFailed e s b2
              | (Inr u, b2) \<Rightarrow>
                  (case Demo_delete did b2 of
                     (Inl e, b3) \<Rightarrow> deleteFailed e s b3
                   | (Inr u', b3) \<Rightarrow> (Completed, s, b3)))))"

subsection \<open>handleSubmit\<close>

definition validateForm :: "AdminState \<Rightarrow> bool \<times> AdminState" where
  "validateForm s =
     (let errors = \<lparr>fe_projectName = (trim (fd_projectName (formData s)) = []),
                     fe_githubLink = (trim (fd_githubLink (formData s)) = []),
                     fe_projectLink = (trim (fd_projectLink (formData s)) = []),
                     fe_imageUrl = (trim (fd_imageUrl (formData s)) = []),
                     fe_tags = (length (selectedTags s) = 0)\<rparr>
      in (\<not> (fe_projectName errors \<or> fe_githubLink errors \<or> fe_projectLink errors \<or>
              fe_imageUrl errors \<or> fe_tags errors),
          s\<lparr>formErrors := errors\<rparr>))"

fun createAll :: "string \<Rightarrow> string list \<Rightarrow> Backend \<Rightarrow> (AppError + unit) \<times> Backend" where
  "createAll did [] b = (Inr (), b)"
| "createAll did (tid # tids) b =
     (case DemoTag_create did tid b of
        (Inl e, b') \<Rightarrow> (Inl e, b')
      | (Inr u, b') \<Rightarrow> createAll did tids b')"

definition emptyForm :: FormData where
  "emptyForm = \<lparr>fd_projectName = [], fd_githubLink = [], fd_projectLink = [], fd_imageUrl = []\<rparr>"

definition submitFailed :: "AppError \<Rightarrow> AdminState \<Rightarrow> Backend \<Rightarrow> outcome \<times> AdminState \<times> Backend" where
  "submitFailed e s b = (Caught e, s\<lparr>debugInfo := ''Error in form submit: '' @ message e\<rparr>, b)"

text \<open>
  The end of the \<open>try\<close> block, common to both branches: one relationship per selected
  tag, then the form is reset and closed.
\<close>

definition submitTags :: "string \<Rightarrow> AdminState \<Rightarrow> Backend \<Rightarrow> outcome \<times> AdminState \<times> Backend" where
  "submitTags did s b =
     (case createAll did (selectedTags s) b of
        (Inl e, b') \<Rightarrow> submitFailed e s b'
      | (Inr u, b') \<Rightarrow>
          (Completed, s\<lparr>formData := emptyForm, selectedTags := [], isFormOpen := False\<rparr>, b'))"

definition handleSubmit :: "AdminState \<Rightarrow> Backend \<Rightarrow> outcome \<times> AdminState \<times> Backend" where
  "handleSubmit s0 b =
     (if \<not> modelExists s0
      then (Skipped,
            s0\<lparr>debugInfo := ''Cannot submit: Demo model is not available in the backend yet.''\<rparr>, b)
      else
        (case validateForm s0 of
           (False, s) \<Rightarrow> (Skipped, s, b)
         | (True, s) \<Rightarrow>
             if truthy (editingId s)
             then
               (case Demo_update (the (editingId s)) (formData s) b of
                  (Inl e, b1) \<Rightarrow> submitFailed e s b1
                | (Inr u, b1) \<Rightarrow>
                    (case DemoTag_list (the (editingId s)) b1 of
                       (Inl e, b2) \<Rightarrow> submitFailed e s b2
                     | (Inr existingDemoTags, b2) \<Rightarrow>
                         (case (case existingDemoTags of
                                  None \<Rightarrow> (Inr (), b2)
                                | Some rs \<Rightarrow> deleteAll rs b2) of
                            (Inl e, b3) \<Rightarrow> submitFailed e s b3
                          | (Inr u', b3) \<Rightarrow>
                              submitTags (the (editingId s)) (s\<lparr>editingId := None\<rparr>) b3)))
             else
               (case Demo_create (formData s) b of
                  (Inl e, b1) \<Rightarrow> submitFailed e s b1
                | (Inr newDemo, b1) \<Rightarrow>
                    submitTags (or_else (map_option d_id newDemo) []) s b1)))"

text \<open>The states of the admin demo form, read off the component state.\<close>

datatype formState = Closed | OpenForCreate | OpenForEdit string

definition formStateOf :: "AdminState \<Rightarrow> formState" where
  "formStateOf s =
     (if \<not> isFormOpen s then Closed
      else if truthy (editingId s) then OpenForEdit (the (editingId s))
      else OpenForCreate)"

section \<open>Literal inputs of the admin examples\<close>

definition backend0 :: Backend where
  "backend0 = \<lparr>demoTable = [demo_d1, demo_d2], tagTable = [tag_games],
     demoTagTable = [\<lparr>rec_id = ''r1'', rec_demoId = ''d1'', rec_tagId = ''tagA''\<rparr>,
                     \<lparr>rec_id = ''r2'', rec_demoId = ''d1'', rec_tagId = ''tagB''\<rparr>,
                     \<lparr>rec_id = ''r3'', rec_demoId = ''d2'', rec_tagId = ''tagA''\<rparr>],
     nextId = 0, now = ''t1'', faults = []\<rparr>"

definition admin0 :: AdminState where
  "admin0 = \<lparr>demos = [demo_d1, demo_d2], demoTags = [],
     availableTags = [\<lparr>t_id = ''t1'', t_name = ''Games'', t_color = ''#e74c3c''\<rparr>],
     searchTerm = [], selectedFilterTags = [], debugInfo = [], isLoading = False,
     modelExists = True, isFormOpen = False, editingId = None, isAddTagOpen = False,
     newTagName = [], addTagError = False, formData = emptyForm, selectedTags = [],
     formErrors = \<lparr>fe_projectName = False, fe_githubLink = False, fe_projectLink = False,
       fe_imageUrl = False, fe_tags = False\<rparr>\<rparr>"

text \<open>The add-tag popup holding the name \<open>" gAMES "\<close> while a tag "Games" exists.\<close>

definition addTagState :: AdminState where
  "addTagState = admin0\<lparr>isAddTagOpen := True, newTagName := '' gAMES ''\<rparr>"

text \<open>
  The form open for editing demo \<open>d1\<close>, and a backend whose fifth request throws: the
  update, the list and the two deletions succeed, the creation of the relationship fails.
\<close>

definition editState :: AdminState where
  "editState = admin0\<lparr>isFormOpen := True, editingId := Some ''d1'',
     formData := \<lparr>fd_projectName = ''Alpha 2'', fd_githubLink = ''g'', fd_projectLink = ''p'',
       fd_imageUrl = ''i''\<rparr>,
     selectedTags := [''tagA'']\<rparr>"

definition failingBackend :: Backend where
  "failingBackend = backend0\<lparr>faults := [False, False, False, False, True]\<rparr>"

text \<open>A tag snapshot with a null element and a record whose name is empty.\<close>

definition snapshot :: "RawTag option list" where
  "snapshot = [Some tag_games, None,
     Some \<lparr>raw_id = Some ''t2'', raw_name = Some [], raw_color = None\<rparr>,
     Some \<lparr>raw_id = Some ''t3'', raw_name = Some ''ML'', raw_color = None\<rparr>]"

section \<open>Properties of the strings\<close>

lemma includes_sublist: "str_includes s t \<longleftrightarrow> sublist t s"
  by (induction s) (simp_all add: sublist_Cons_right)

lemma map_eq_map_rel: "map f ys = map f q \<longleftrightarrow> list_all2 (\<lambda>a b. f a = f b) ys q"
proof -
  have "list_all2 (=) (map f ys) (map f q) \<longleftrightarrow> list_all2 (\<lambda>a b. f a = f b) ys q"
    by (simp add: list.rel_map)
  then show ?thesis by (simp add: list.rel_eq)
qed

lemma includes_lower_ci: "str_includes (toLowerCase n) (toLowerCase q) \<longleftrightarrow> ci_substring q n"
proof
  assume "str_includes (toLowerCase n) (toLowerCase q)"
  then obtain ps ss where "map toLowerChar n = ps @ map toLowerChar q @ ss"
    by (auto simp: includes_sublist sublist_def toLowerCase_def)
  then obtain ps' r where n1: "n = ps' @ r"
    and r: "map toLowerChar r = map toLowerChar q @ ss"
    by (metis map_eq_append_conv)
  from r obtain ys ss' where r1: "r = ys @ ss'"
    and ys: "map toLowerChar ys = map toLowerChar q"
    by (metis map_eq_append_conv)
  from n1 r1 have n: "n = ps' @ ys @ ss'" by simp
  from n have "sublist ys n" by (auto simp: sublist_def)
  with ys show "ci_substring q n"
    unfolding ci_substring_def map_eq_map_rel by blast
next
  assume "ci_substring q n"
  then obtain ys where s: "sublist ys n" and "map toLowerChar ys = map toLowerChar q"
    unfolding ci_substring_def map_eq_map_rel by blast
  moreover from s have "sublist (map toLowerChar ys) (map toLowerChar n)"
    by (rule map_mono_sublist)
  ultimately show "str_includes (toLowerCase n) (toLowerCase q)"
    by (simp add: includes_sublist toLowerCase_def)
qed

lemma ci_substring_nonempty: "ci_substring q n \<Longrightarrow> q \<noteq> [] \<Longrightarrow> n \<noteq> []"
  by (auto simp: ci_substring_def)

lemma matchesSearch_spec:
  "matchesSearch q d \<longleftrightarrow> q = [] \<or> (\<exists>n. projectName d = Some n \<and> ci_substring q n)"
  by (cases "projectName d")
     (auto simp: matchesSearch_def includes_lower_ci dest: ci_substring_nonempty)

lemma matchesTags_spec:
  "matchesTags sel dts d \<longleftrightarrow>
     (\<forall>t \<in> set sel. \<exists>dt \<in> set dts. demoId dt = d_id d \<and> tagId dt = t)"
  by (auto simp: matchesTags_def list_all_iff list_ex_iff)

section \<open>Properties of the view projection\<close>

lemma ci_substring_ALP: "ci_substring ''ALP'' ''Alpha''"
  unfolding includes_lower_ci [symmetric] by code_simp

lemma getFilteredDemos_example: "getFilteredDemos example_state = [demo_d1]"
  by (simp add: getFilteredDemos_def example_state_def matchesSearch_def matchesTags_def
      demo_d1_def demo_d2_def rel_def)

text \<open>
  Claim C1. A demo is in the result of \<open>getFilteredDemos\<close> if and only if it is in the input
  sequence and (a) the search term is empty, or the demo's \<open>projectName\<close> exists and
  contains the search term as a case-insensitive substring, and (b) for every tag
  identifier of the selected filter set there is an enriched relationship whose \<open>demoId\<close>
  is the demo's id and whose \<open>tagId\<close> is that identifier. For the demos \<open>d1\<close> (Alpha, with
  tagA and tagB) and \<open>d2\<close> (Beta, with tagA) and the selected tags tagA and tagB, the result
  is exactly \<open>[d1]\<close>.
\<close>

theorem getFilteredDemos_membership:
  "(\<forall>d. d \<in> set (getFilteredDemos s) \<longleftrightarrow>
      d \<in> set (demos s) \<and>
      (searchTerm s = [] \<or> (\<exists>n. projectName d = Some n \<and> ci_substring (searchTerm s) n)) \<and>
      (\<forall>t \<in> set (selectedFilterTags s).
         \<exists>dt \<in> set (demoTags s). demoId dt = d_id d \<and> tagId dt = t))
   \<and> getFilteredDemos example_state = [demo_d1]"
proof
  show "\<forall>d. d \<in> set (getFilteredDemos s) \<longleftrightarrow>
      d \<in> set (demos s) \<and>
      (searchTerm s = [] \<or> (\<exists>n. projectName d = Some n \<and> ci_substring (searchTerm s) n)) \<and>
      (\<forall>t \<in> set (selectedFilterTags s).
         \<exists>dt \<in> set (demoTags s). demoId dt = d_id d \<and> tagId dt = t)"
    by (simp add: getFilteredDemos_def matchesSearch_spec matchesTags_spec)
  show "getFilteredDemos example_state = [demo_d1]"
    by (rule getFilteredDemos_example)
qed

theorem getFilteredDemos_membership_witness:
  "demo_d1 \<in> set (getFilteredDemos (example_state\<lparr>searchTerm := ''ALP''\<rparr>)) \<and>
   demo_d2 \<notin> set (getFilteredDemos (example_state\<lparr>searchTerm := ''ALP''\<rparr>))"
  using getFilteredDemos_membership [of "example_state\<lparr>searchTerm := ''ALP''\<rparr>"]
    ci_substring_ALP
  by (simp add: example_state_def demo_d1_def demo_d2_def rel_def)

text \<open>
  Claim C6. The result of \<open>getFilteredDemos\<close> is a subsequence of the input demo sequence:
  the demos that pass keep their relative order, and none is duplicated or moved.
\<close>

theorem getFilteredDemos_subseq: "subseq (getFilteredDemos s) (demos s)"
  by (simp add: getFilteredDemos_def)

theorem getFilteredDemos_subseq_witness: "subseq [demo_d1] [demo_d1, demo_d2]"
proof -
  have "demos example_state = [demo_d1, demo_d2]"
    by (simp add: example_state_def)
  with getFilteredDemos_subseq [of example_state] show ?thesis
    by (simp only: getFilteredDemos_example)
qed

text \<open>
  Claim C10. After \<open>clearAllFilters\<close> the search term is the empty string and no filter tag
  is selected, and \<open>getFilteredDemos\<close> returns the whole demo sequence unchanged, whatever
  the demos and the enriched relationships are.
\<close>

theorem clearAllFilters_identity:
  "getFilteredDemos (clearAllFilters s) = demos s \<and>
   searchTerm (clearAllFilters s) = [] \<and> selectedFilterTags (clearAllFilters s) = []"
  by (simp add: getFilteredDemos_def clearAllFilters_def matchesSearch_def matchesTags_def)

theorem clearAllFilters_identity_witness:
  "getFilteredDemos (clearAllFilters example_state) = [demo_d1, demo_d2]"
  using clearAllFilters_identity [of example_state] by (simp add: example_state_def)

text \<open>
  Claim C9. \<open>handleFilterTagToggle\<close> flips the membership of the toggled id and of no other
  id: the id is removed when it was selected and appended when it was not. Toggling the
  same id twice gives back the original selected set.
\<close>

theorem handleFilterTagToggle_flips:
  "(\<forall>x. x \<in> set (selectedFilterTags (handleFilterTagToggle tid s)) \<longleftrightarrow>
        (if x = tid then tid \<notin> set (selectedFilterTags s) else x \<in> set (selectedFilterTags s)))
   \<and> selectedFilterTags (handleFilterTagToggle tid s) =
       (if tid \<in> set (selectedFilterTags s)
        then filter (\<lambda>i. i \<noteq> tid) (selectedFilterTags s)
        else selectedFilterTags s @ [tid])
   \<and> set (selectedFilterTags (handleFilterTagToggle tid (handleFilterTagToggle tid s))) =
       set (selectedFilterTags s)"
  by (auto simp: handleFilterTagToggle_def Let_def)

theorem handleFilterTagToggle_flips_witness:
  "selectedFilterTags (handleFilterTagToggle ''tagA'' example_state) = [''tagB''] \<and>
   set (selectedFilterTags
     (handleFilterTagToggle ''tagA'' (handleFilterTagToggle ''tagA'' example_state)))
     = set [''tagA'', ''tagB'']"
proof -
  have sel: "selectedFilterTags example_state = [''tagA'', ''tagB'']"
    by (simp add: example_state_def)
  note flips = handleFilterTagToggle_flips [of "''tagA''" example_state]
  from flips [THEN conjunct2, THEN conjunct1]
  have "selectedFilterTags (handleFilterTagToggle ''tagA'' example_state) = [''tagB'']"
    by (simp add: sel)
  moreover from flips [THEN conjunct2, THEN conjunct2]
  have "set (selectedFilterTags
      (handleFilterTagToggle ''tagA'' (handleFilterTagToggle ''tagA'' example_state)))
      = set [''tagA'', ''tagB'']"
    by (simp only: sel)
  ultimately show ?thesis by (rule conjI)
qed

section \<open>Properties of the synchronizer and the enricher\<close>

lemma toTagItem_asRaw:
  "isValidTag (Some tg) \<Longrightarrow>
     isValidTag (asRaw (toTagItem dflt tg)) \<and>
     toTagItem dflt (the (asRaw (toTagItem dflt tg))) = toTagItem dflt tg"
  by (auto simp: isValidTag_def asRaw_def toTagItem_def truthy_def or_else_def
      split: option.splits)

lemma validTags_again:
  "validTags dflt (map asRaw (validTags dflt items)) = validTags dflt items"
proof (induction items)
  case Nil
  then show ?case by (simp add: validTags_def)
next
  case (Cons t items)
  show ?case
  proof (cases "isValidTag t")
    case False
    with Cons show ?thesis by (simp add: validTags_def)
  next
    case True
    then obtain tg where t: "t = Some tg" by (cases t) (auto simp: isValidTag_def)
    with True toTagItem_asRaw [of tg dflt] Cons show ?thesis
      by (simp add: validTags_def)
  qed
qed

text \<open>
  Claim C8. The validation filter keeps the records whose id and name are present (not
  null and not empty). Filtering a sequence of tag records twice gives the same result as
  filtering it once; the same holds for the whole validation of a snapshot, the filter
  followed by the construction of the tag items.
\<close>

theorem validation_idempotent:
  "filter isValidTag (filter isValidTag items) = filter isValidTag items \<and>
   validTags dflt (map asRaw (validTags dflt items)) = validTags dflt items"
  by (simp add: validTags_again)

theorem validation_idempotent_witness:
  "validTags ''#f89520'' (map asRaw (validTags ''#f89520'' snapshot)) =
     [\<lparr>t_id = ''t1'', t_name = ''Games'', t_color = ''#e74c3c''\<rparr>,
      \<lparr>t_id = ''t3'', t_name = ''ML'', t_color = ''#f89520''\<rparr>]"
  using validation_idempotent [of snapshot "''#f89520''"]
  by (simp add: validTags_def snapshot_def tag_games_def isValidTag_def truthy_def
      toTagItem_def or_else_def)

lemma truthy_absent: "truthy v \<longleftrightarrow> \<not> absent v"
  by (cases v) (simp_all add: truthy_def absent_def)

lemma enrichLoop_spec:
  "enrichLoop dflt get items acc =
     acc @ map (paired dflt get) (filter (\<lambda>i. \<not> excluded get i) items)"
proof (induction items arbitrary: acc)
  case Nil
  then show ?case by simp
next
  case (Cons item items)
  show ?case
  proof (cases item)
    case None
    then show ?thesis by (simp add: Cons.IH excluded_def)
  next
    case (Some it)
    then show ?thesis
      by (auto simp: Cons.IH excluded_def paired_def noRecord_def recordOf_def toTagItem_def
          truthy_absent split: sum.splits option.splits)
  qed
qed

text \<open>
  Claim C2. For every list of raw relationships and every tag resolver, the enrichment
  pass excludes a relationship exactly when its \<open>demoId\<close> or \<open>tagId\<close> is absent, or the
  resolver yields no record for the \<open>tagId\<close>, or the resolved record is missing its id or its
  name; every other relationship is in the enriched output, in the order of the input,
  paired with its resolved tag. The relationship \<open>{demoId: "d1", tagId: "missing"}\<close>, with
  no tag "missing", gives an empty enriched output.
\<close>

theorem enrichDemoTags_exclusion:
  "enrichDemoTags dflt get items = map (paired dflt get) (filter (\<lambda>i. \<not> excluded get i) items)
   \<and> enrichDemoTags dflt (lookupIn [tag_games]) [Some rel_missing] = []"
proof
  show "enrichDemoTags dflt get items =
      map (paired dflt get) (filter (\<lambda>i. \<not> excluded get i) items)"
    by (simp add: enrichDemoTags_def enrichLoop_spec)
  show "enrichDemoTags dflt (lookupIn [tag_games]) [Some rel_missing] = []"
    by (simp add: enrichDemoTags_def lookupIn_def tag_games_def rel_missing_def truthy_def)
qed

theorem enrichDemoTags_exclusion_witness:
  "enrichDemoTags ''#f89520'' (lookupIn [tag_games])
     [Some rel_missing, Some rel_empty_demo, Some rel_games, None] =
   [\<lparr>dt_id = ''r3'', demoId = ''d1'', tagId = ''t1'',
     tag = Some \<lparr>t_id = ''t1'', t_name = ''Games'', t_color = ''#e74c3c''\<rparr>\<rparr>]"
  using enrichDemoTags_exclusion [of "''#f89520''" "lookupIn [tag_games]"
      "[Some rel_missing, Some rel_empty_demo, Some rel_games, None]"]
  by (simp add: excluded_def paired_def lookupIn_def tag_games_def rel_missing_def
      rel_empty_demo_def rel_games_def absent_def noRecord_def recordOf_def toTagItem_def
      or_else_def)

section \<open>Properties of the tag allocator\<close>

lemma hd_filter_first:
  "i < length xs \<Longrightarrow> P (xs ! i) \<Longrightarrow> (\<forall>j < i. \<not> P (xs ! j)) \<Longrightarrow>
     filter P xs \<noteq> [] \<and> hd (filter P xs) = xs ! i"
proof (induction xs arbitrary: i)
  case Nil
  then show ?case by simp
next
  case (Cons x xs)
  show ?case
  proof (cases i)
    case 0
    with Cons.prems show ?thesis by simp
  next
    case (Suc k)
    with Cons.prems have "\<not> P x" by auto
    moreover from Suc Cons.prems have "k < length xs" "P (xs ! k)" "\<forall>j < k. \<not> P (xs ! j)"
      by auto
    ultimately show ?thesis using Cons.IH [of k] Suc by simp
  qed
qed

lemma filter_none: "(\<forall>x \<in> set xs. \<not> P x) \<Longrightarrow> filter P xs = []"
  by (induction xs) auto

text \<open>
  Claim C3. \<open>getNextAvailableColor\<close> returns the first entry of the ordered palette of 10
  colours that no existing tag uses, and the first entry of the palette when every entry
  is in use. With existing tags that use the entries 0, 1 and 2 it returns entry 3; with
  all 10 entries used it returns entry 0.
\<close>

theorem getNextAvailableColor_first_unused:
  "(\<forall>i < length TAG_COLORS.
      TAG_COLORS ! i \<notin> t_color ` set (availableTags s) \<and>
      (\<forall>j < i. TAG_COLORS ! j \<in> t_color ` set (availableTags s))
      \<longrightarrow> getNextAvailableColor s = TAG_COLORS ! i)
   \<and> (set TAG_COLORS \<subseteq> t_color ` set (availableTags s)
        \<longrightarrow> getNextAvailableColor s = TAG_COLORS ! 0)
   \<and> length TAG_COLORS = 10
   \<and> getNextAvailableColor (stateWithTags (tagsUsing [0, 1, 2])) = TAG_COLORS ! 3
   \<and> getNextAvailableColor (stateWithTags (tagsUsing [0, 1, 2, 3, 4, 5, 6, 7, 8, 9])) = TAG_COLORS ! 0"
proof (intro conjI allI impI)
  fix i
  assume i: "i < length TAG_COLORS"
    and u: "TAG_COLORS ! i \<notin> t_color ` set (availableTags s) \<and>
      (\<forall>j < i. TAG_COLORS ! j \<in> t_color ` set (availableTags s))"
  from hd_filter_first [of i TAG_COLORS "\<lambda>color. color \<notin> t_color ` set (availableTags s)"] i u
  show "getNextAvailableColor s = TAG_COLORS ! i"
    by (simp add: getNextAvailableColor_def Let_def)
next
  assume "set TAG_COLORS \<subseteq> t_color ` set (availableTags s)"
  then have "filter (\<lambda>color. color \<notin> t_color ` set (availableTags s)) TAG_COLORS = []"
    by (intro filter_none) auto
  then show "getNextAvailableColor s = TAG_COLORS ! 0"
    by (simp add: getNextAvailableColor_def Let_def)
next
  show "length TAG_COLORS = 10" by (simp add: TAG_COLORS_def)
next
  show "getNextAvailableColor (stateWithTags (tagsUsing [0, 1, 2])) = TAG_COLORS ! 3"
    by (simp add: getNextAvailableColor_def stateWithTags_def tagsUsing_def TAG_COLORS_def)
next
  show "getNextAvailableColor (stateWithTags (tagsUsing [0, 1, 2, 3, 4, 5, 6, 7, 8, 9])) =
      TAG_COLORS ! 0"
    by (simp add: getNextAvailableColor_def stateWithTags_def tagsUsing_def TAG_COLORS_def)
qed

theorem getNextAvailableColor_first_unused_witness:
  "getNextAvailableColor (stateWithTags (tagsUsing [0, 2])) = ''#3498db''"
proof -
  have "TAG_COLORS ! 1 \<notin> t_color ` set (availableTags (stateWithTags (tagsUsing [0, 2]))) \<and>
      (\<forall>j < 1. TAG_COLORS ! j \<in> t_color ` set (availableTags (stateWithTags (tagsUsing [0, 2]))))"
    by (simp add: stateWithTags_def tagsUsing_def TAG_COLORS_def)
  moreover have "(1::nat) < length TAG_COLORS" by (simp add: TAG_COLORS_def)
  ultimately have "getNextAvailableColor (stateWithTags (tagsUsing [0, 2])) = TAG_COLORS ! 1"
    using getNextAvailableColor_first_unused [of "stateWithTags (tagsUsing [0, 2])"] by blast
  then show ?thesis by (simp add: TAG_COLORS_def)
qed

lemma ci_equal_lower: "ci_equal a b \<longleftrightarrow> toLowerCase a = toLowerCase b"
  by (simp add: ci_equal_def toLowerCase_def map_eq_map_rel)

text \<open>
  Claim C5. Whenever the name of some existing tag matches the proposed name
  case-insensitively, the proposed name taken after trimming its white space,
  \<open>handleAddTag\<close> rejects the proposal: it sends no request to the backend, so no tag is
  created, it leaves the list of tags and the popup as they are, and it raises the error
  flag. The proposal \<open>" Games "\<close>, in any letter case, is rejected when a tag "Games" exists.
\<close>

theorem handleAddTag_rejects_duplicate:
  "\<exists>t \<in> set (availableTags s). ci_equal (t_name t) (trim (newTagName s)) \<Longrightarrow>
     handleAddTag s b = (s\<lparr>addTagError := True\<rparr>, b)"
  by (auto simp: handleAddTag_def tagExists_def list_ex_iff ci_equal_lower)

theorem handleAddTag_rejects_duplicate_witness:
  "handleAddTag addTagState backend0 = (addTagState\<lparr>addTagError := True\<rparr>, backend0)"
proof -
  have "ci_equal ''Games'' (trim '' gAMES '')"
    by code_simp
  then have "\<exists>t \<in> set (availableTags addTagState).
      ci_equal (t_name t) (trim (newTagName addTagState))"
    by (simp add: addTagState_def admin0_def)
  then show ?thesis by (rule handleAddTag_rejects_duplicate)
qed

section \<open>Properties of the cascade delete\<close>

lemma request_tables:
  "request b = (f, b') \<Longrightarrow>
     demoTagTable b' = demoTagTable b \<and> demoTable b' = demoTable b \<and> tagTable b' = tagTable b"
  by (auto simp: request_def split: list.splits)

lemma DemoTag_list_ok:
  "DemoTag_list did b = (Inr resp, b') \<Longrightarrow>
     resp = Some (filter (\<lambda>r. rec_demoId r = did) (demoTagTable b)) \<and>
     demoTagTable b' = demoTagTable b \<and> demoTable b' = demoTable b"
  by (auto simp: DemoTag_list_def split: prod.splits bool.splits dest: request_tables)

lemma DemoTag_delete_ok:
  "DemoTag_delete rid b = (Inr u, b') \<Longrightarrow>
     demoTagTable b' = filter (\<lambda>r. rec_id r \<noteq> rid) (demoTagTable b) \<and>
     demoTable b' = demoTable b"
  by (auto simp: DemoTag_delete_def split: prod.splits bool.splits dest: request_tables)

lemma Demo_delete_ok:
  "Demo_delete did b = (Inr u, b') \<Longrightarrow>
     demoTable b' = filter (\<lambda>d. d_id d \<noteq> did) (demoTable b) \<and>
     demoTagTable b' = demoTagTable b"
  by (auto simp: Demo_delete_def split: prod.splits bool.splits dest: request_tables)

lemma deleteAll_ok:
  "deleteAll rs b = (Inr u, b') \<Longrightarrow>
     demoTagTable b' = filter (\<lambda>r. rec_id r \<notin> rec_id ` set rs) (demoTagTable b) \<and>
     demoTable b' = demoTable b"
proof (induction rs arbitrary: b)
  case Nil
  then show ?case by simp
next
  case (Cons r rs)
  from Cons.prems obtain b1 where d: "DemoTag_delete (rec_id r) b = (Inr (), b1)"
    and rest: "deleteAll rs b1 = (Inr u, b')"
    by (auto split: prod.splits sum.splits)
  from DemoTag_delete_ok [OF d] Cons.IH [OF rest] show ?case
    by (auto intro: filter_cong)
qed

text \<open>With no failure scheduled the handler runs to the end of its \<open>try\<close> block.\<close>

lemma deleteAll_no_faults:
  "faults b = [] \<Longrightarrow> \<exists>b'. deleteAll rs b = (Inr (), b') \<and> faults b' = []"
  by (induction rs arbitrary: b) (simp_all add: DemoTag_delete_def request_def)

lemma deleteDemo_completes:
  assumes "modelExists s" and "faults b = []"
  shows "\<exists>b'. deleteDemo True did s b = (Completed, s, b')"
proof -
  from assms(2) have l: "DemoTag_list did b =
      (Inr (Some (filter (\<lambda>r. rec_demoId r = did) (demoTagTable b))), b)"
    by (simp add: DemoTag_list_def request_def)
  from deleteAll_no_faults [OF assms(2)] obtain b2
    where d: "deleteAll (filter (\<lambda>r. rec_demoId r = did) (demoTagTable b)) b = (Inr (), b2)"
      and f: "faults b2 = []" by blast
  from f have "\<exists>b3. Demo_delete did b2 = (Inr (), b3)"
    by (simp add: Demo_delete_def request_def)
  with assms(1) l d show ?thesis
    by (auto simp: deleteDemo_def)
qed

lemma DemoTag_delete_demoTable:
  "DemoTag_delete rid b = (r, b') \<Longrightarrow> demoTable b' = demoTable b"
  by (auto simp: DemoTag_delete_def split: prod.splits bool.splits dest: request_tables)

lemma deleteAll_demoTable: "deleteAll rs b = (r, b') \<Longrightarrow> demoTable b' = demoTable b"
proof (induction rs arbitrary: b)
  case Nil
  then show ?case by simp
next
  case (Cons x rs)
  then show ?case
    by (auto split: prod.splits sum.splits dest: DemoTag_delete_demoTable)
qed

lemma DemoTag_list_demoTable:
  "DemoTag_list did b = (r, b') \<Longrightarrow> demoTable b' = demoTable b"
  by (auto simp: DemoTag_list_def split: prod.splits bool.splits dest: request_tables)

lemma Demo_delete_failed:
  "Demo_delete did b = (Inl e, b') \<Longrightarrow> demoTable b' = demoTable b"
  by (auto simp: Demo_delete_def split: prod.splits bool.splits dest: request_tables)

text \<open>
  The demo record is deleted last: a run that does not complete leaves the demo
  collection as it was.
\<close>

lemma deleteDemo_demo_last:
  assumes "deleteDemo confirmed did s b = (out, s', b')" and "out \<noteq> Completed"
  shows "demoTable b' = demoTable b"
proof (cases "modelExists s \<and> confirmed")
  case False
  with assms show ?thesis by (auto simp: deleteDemo_def split: if_splits)
next
  case True
  obtain r1 b1 where l: "DemoTag_list did b = (r1, b1)" by (cases "DemoTag_list did b")
  note t1 = DemoTag_list_demoTable [OF l]
  show ?thesis
  proof (cases r1)
    case (Inl e)
    with assms True l t1 show ?thesis by (simp add: deleteDemo_def deleteFailed_def)
  next
    case (Inr resp)
    obtain r2 b2 where d: "(case resp of None \<Rightarrow> (Inr (), b1) | Some rs \<Rightarrow> deleteAll rs b1) = (r2, b2)"
      by (cases "case resp of None \<Rightarrow> (Inr (), b1) | Some rs \<Rightarrow> deleteAll rs b1")
    then have t2: "demoTable b2 = demoTable b1"
      by (auto split: option.splits dest: deleteAll_demoTable)
    show ?thesis
    proof (cases r2)
      case (Inl e)
      with assms True l Inr d t1 t2 show ?thesis by (simp add: deleteDemo_def deleteFailed_def)
    next
      case r2: (Inr u)
      obtain r3 b3 where dd: "Demo_delete did b2 = (r3, b3)" by (cases "Demo_delete did b2")
      with assms True l Inr d r2 t1 t2 show ?thesis
        by (cases r3) (auto simp: deleteDemo_def deleteFailed_def dest: Demo_delete_failed)
    qed
  qed
qed

lemma deleteDemo_example:
  "deleteDemo True ''d1'' admin0 backend0 =
     (Completed, admin0,
      backend0\<lparr>demoTable := [demo_d2],
        demoTagTable := [\<lparr>rec_id = ''r3'', rec_demoId = ''d2'', rec_tagId = ''tagA''\<rparr>]\<rparr>)"
  by (simp add: deleteDemo_def admin0_def backend0_def DemoTag_list_def DemoTag_delete_def
      Demo_delete_def request_def demo_d1_def demo_d2_def)

text \<open>
  Claim C4. When \<open>deleteDemo\<close> completes successfully on a demo id, no relationship record
  that references the id remains in the backend: every relationship whose \<open>demoId\<close> is the
  target id has been deleted, before the demo record itself, which is gone too, and no
  relationship has been added. A demo with two relationships loses both.
\<close>

theorem deleteDemo_cascade:
  "deleteDemo confirmed did s b = (Completed, s', b') \<Longrightarrow>
     filter (\<lambda>r. rec_demoId r = did) (demoTagTable b') = [] \<and>
     filter (\<lambda>d. d_id d = did) (demoTable b') = [] \<and>
     set (demoTagTable b') \<subseteq> set (demoTagTable b)"
proof -
  assume a: "deleteDemo confirmed did s b = (Completed, s', b')"
  then obtain resp b1 b2 where l: "DemoTag_list did b = (Inr resp, b1)"
    and da: "(case resp of None \<Rightarrow> (Inr (), b1) | Some rs \<Rightarrow> deleteAll rs b1) = (Inr (), b2)"
    and dd: "Demo_delete did b2 = (Inr (), b')"
    by (auto simp: deleteDemo_def deleteFailed_def split: if_splits prod.splits sum.splits)
  from DemoTag_list_ok [OF l]
  have resp: "resp = Some (filter (\<lambda>r. rec_demoId r = did) (demoTagTable b))"
    and t1: "demoTagTable b1 = demoTagTable b" by simp_all
  from da resp
  have "deleteAll (filter (\<lambda>r. rec_demoId r = did) (demoTagTable b)) b1 = (Inr (), b2)"
    by simp
  from deleteAll_ok [OF this] t1
  have t2: "demoTagTable b2 =
      filter (\<lambda>r. rec_id r \<notin> rec_id ` set (filter (\<lambda>r. rec_demoId r = did) (demoTagTable b)))
        (demoTagTable b)"
    by simp
  from Demo_delete_ok [OF dd] have t3: "demoTagTable b' = demoTagTable b2"
    and d3: "demoTable b' = filter (\<lambda>d. d_id d \<noteq> did) (demoTable b2)" by simp_all
  from t2 t3 have "filter (\<lambda>r. rec_demoId r = did) (demoTagTable b') = []"
    by (auto simp: filter_empty_conv)
  moreover from d3 have "filter (\<lambda>d. d_id d = did) (demoTable b') = []"
    by (auto simp: filter_empty_conv)
  moreover from t2 t3 have "set (demoTagTable b') \<subseteq> set (demoTagTable b)" by auto
  ultimately show ?thesis by simp
qed

theorem deleteDemo_cascade_witness:
  "filter (\<lambda>r. rec_demoId r = ''d1'') (demoTagTable backend0) =
     [\<lparr>rec_id = ''r1'', rec_demoId = ''d1'', rec_tagId = ''tagA''\<rparr>,
      \<lparr>rec_id = ''r2'', rec_demoId = ''d1'', rec_tagId = ''tagB''\<rparr>] \<and>
   fst (deleteDemo True ''d1'' admin0 backend0) = Completed \<and>
   filter (\<lambda>r. rec_demoId r = ''d1'')
     (demoTagTable (snd (snd (deleteDemo True ''d1'' admin0 backend0)))) = []"
  using deleteDemo_cascade [OF deleteDemo_example]
  by (simp add: deleteDemo_example) (simp add: backend0_def)

section \<open>Properties of the demo form\<close>

lemma submitTags_failure:
  "submitTags did s b = (Caught e, s', b') \<Longrightarrow>
     s' = s\<lparr>debugInfo := ''Error in form submit: '' @ message e\<rparr>"
  by (auto simp: submitTags_def submitFailed_def split: prod.splits sum.splits)

text \<open>
  What every failed submit keeps: the field contents, the selected tags and the open
  form, with the diagnostic recorded; the editing id is either kept or cleared.
\<close>

lemma handleSubmit_failure_keeps_form:
  "handleSubmit s b = (Caught e, s', b') \<Longrightarrow>
     formData s' = formData s \<and> selectedTags s' = selectedTags s \<and>
     isFormOpen s' = isFormOpen s \<and>
     debugInfo s' = ''Error in form submit: '' @ message e \<and>
     (editingId s' = editingId s \<or> editingId s' = None)"
  by (auto simp: handleSubmit_def validateForm_def Let_def submitFailed_def
      split: if_splits prod.splits sum.splits bool.splits dest!: submitTags_failure)

text \<open>A failed submit of a new demo leaves the form in the state it was in.\<close>

lemma handleSubmit_create_failure_keeps_state:
  "handleSubmit s b = (Caught e, s', b') \<Longrightarrow> \<not> truthy (editingId s) \<Longrightarrow>
     formStateOf s' = formStateOf s"
  by (auto simp: handleSubmit_def validateForm_def Let_def submitFailed_def formStateOf_def
      split: if_splits prod.splits sum.splits bool.splits dest!: submitTags_failure)

text \<open>
  Claim C7. A failed \<open>handleSubmit\<close> is to leave the form in its prior open state, for an
  edit with the same editing id. The handler clears the editing id before it creates the
  new relationships: when the form is open for editing demo \<open>d1\<close> and the creation of a
  relationship throws, the error is caught with the field contents and the selected tags
  kept, but the editing id is gone and the form is open for a new demo; the former
  relationships of \<open>d1\<close> are deleted by then.
\<close>

theorem handleSubmit_edit_failure_loses_editingId:
  "formStateOf editState = OpenForEdit ''d1'' \<and>
   (case handleSubmit editState failingBackend of
      (out, s', b') \<Rightarrow>
        out = Caught requestFailed \<and>
        formStateOf s' = OpenForCreate \<and> editingId s' = None \<and>
        formData s' = formData editState \<and> selectedTags s' = selectedTags editState \<and>
        debugInfo s' = ''Error in form submit: request failed'' \<and>
        filter (\<lambda>r. rec_demoId r = ''d1'') (demoTagTable b') = [])"
  by (simp add: formStateOf_def editState_def failingBackend_def admin0_def backend0_def
      handleSubmit_def validateForm_def trim_def isWhiteSpace_def truthy_def Demo_update_def
      DemoTag_list_def DemoTag_delete_def DemoTag_create_def request_def submitTags_def
      submitFailed_def requestFailed_def demo_d1_def demo_d2_def Let_def)

end
